theory Spec2Isabelle
  imports Main
begin

section \<open>Platform types: strings, regular expressions, Headers\<close>

text \<open>
  Header values are byte strings, so a JavaScript string read from a \<open>Headers\<close> object
  is a list of 8-bit characters, which is what \<^typ>\<open>string\<close> is.
\<close>

subsection \<open>String helpers of the JavaScript runtime\<close>

text \<open>\<open>String.prototype.trim\<close>: the white space and line terminators of ECMAScript that
  fit in one byte (TAB, LF, VT, FF, CR, SPACE, NBSP).\<close>

definition isWhiteSpace :: "char \<Rightarrow> bool" where
  "isWhiteSpace c =
     (c \<in> set [CHR 0x09, CHR 0x0A, CHR 0x0B, CHR 0x0C, CHR 0x0D, CHR 0x20, CHR 0xA0])"

definition trim :: "string \<Rightarrow> string" where
  "trim s = rev (dropWhile isWhiteSpace (rev (dropWhile isWhiteSpace s)))"

text \<open>\<open>s.startsWith(p)\<close> and \<open>s.slice(n)\<close> for \<open>n \<ge> 0\<close>.\<close>

definition startsWith :: "string \<Rightarrow> string \<Rightarrow> bool" where
  "startsWith s p = (take (length p) s = p)"

definition slice :: "string \<Rightarrow> nat \<Rightarrow> string" where
  "slice s n = drop n s"

text \<open>\<open>s.includes(p)\<close>: \<open>p\<close> occurs in \<open>s\<close>.\<close>

fun stringIncludes :: "string \<Rightarrow> string \<Rightarrow> bool" where
  "stringIncludes [] p = (p = [])"
| "stringIncludes (x # xs) p = (startsWith (x # xs) p \<or> stringIncludes xs p)"

text \<open>A string is truthy when it is not empty; \<open>null\<close> and \<open>undefined\<close> are falsy.\<close>

fun truthy :: "string option \<Rightarrow> bool" where
  "truthy None = False"
| "truthy (Some s) = (s \<noteq> [])"

subsection \<open>The regular expressions of \<open>detect.ts\<close>\<close>

text \<open>
  Every pattern of the source is a sequence of literal characters and \<open>\b\<close> assertions
  under the flag \<open>i\<close>. Two characters match under \<open>i\<close> when their canonical forms
  (upper case, for the ASCII letters) agree; a word character is one of
  \<open>[A-Za-z0-9_]\<close>.
\<close>

datatype atom = Ch char | WordBoundary

type_synonym regExp = "atom list"

definition lit :: "string \<Rightarrow> regExp" where
  "lit s = map Ch s"

definition canonicalize :: "char \<Rightarrow> char" where
  "canonicalize c =
     (case map_of (zip ''abcdefghijklmnopqrstuvwxyz'' ''ABCDEFGHIJKLMNOPQRSTUVWXYZ'') c of
        Some u \<Rightarrow> u
      | None \<Rightarrow> c)"

definition isWordChar :: "char \<Rightarrow> bool" where
  "isWordChar c =
     (c \<in> set ''abcdefghijklmnopqrstuvwxyzABCDEFGHIJKLMNOPQRSTUVWXYZ0123456789_'')"

fun isWord :: "char option \<Rightarrow> bool" where
  "isWord None = False"
| "isWord (Some c) = isWordChar c"

text \<open>\<open>matchHere p prev s\<close>: the pattern matches a prefix of \<open>s\<close>, where \<open>prev\<close> is the
  character just before \<open>s\<close> in the input (none at its start).\<close>

fun matchHere :: "regExp \<Rightarrow> char option \<Rightarrow> string \<Rightarrow> bool" where
  "matchHere [] prev s = True"
| "matchHere (WordBoundary # p) prev s =
     (isWord prev \<noteq> isWord (case s of [] \<Rightarrow> None | x # _ \<Rightarrow> Some x) \<and> matchHere p prev s)"
| "matchHere (Ch c # p) prev [] = False"
| "matchHere (Ch c # p) prev (x # xs) =
     (canonicalize x = canonicalize c \<and> matchHere p (Some x) xs)"

fun search :: "regExp \<Rightarrow> char option \<Rightarrow> string \<Rightarrow> bool" where
  "search p prev [] = matchHere p prev []"
| "search p prev (x # xs) = (matchHere p prev (x # xs) \<or> search p (Some x) xs)"

text \<open>\<open>re.test(s)\<close>: the pattern matches somewhere in \<open>s\<close>.\<close>

definition test :: "regExp \<Rightarrow> string \<Rightarrow> bool" where
  "test p s = search p None s"

definition BOT_UA_PATTERNS :: "regExp list" where
  "BOT_UA_PATTERNS =
    [ lit ''GPTBot'',
      lit ''ChatGPT-User'',
      lit ''OAI-SearchBot'',
      lit ''ClaudeBot'',
      lit ''Claude-Web'',
      lit ''anthropic-ai'',
      lit ''Claude-User'',
      lit ''Googlebot'',
      lit ''Google-Extended'',
      lit ''AdsBot-Google'',
      lit ''bingbot'',
      lit ''msnbot'',
      lit ''PerplexityBot'',
      lit ''YouBot'',
      lit ''python-requests'',
      lit ''node-fetch'',
      WordBoundary # lit ''axios'' @ [WordBoundary],
      WordBoundary # lit ''got'' @ [WordBoundary, Ch CHR ''/''],
      WordBoundary # lit ''undici'' @ [WordBoundary],
      WordBoundary # lit ''curl'' @ [WordBoundary],
      WordBoundary # lit ''wget'' @ [WordBoundary],
      WordBoundary # lit ''httpie'' @ [WordBoundary],
      WordBoundary # lit ''bot'' @ [WordBoundary],
      WordBoundary # lit ''crawler'' @ [WordBoundary],
      WordBoundary # lit ''spider'' @ [WordBoundary],
      WordBoundary # lit ''scraper'' @ [WordBoundary],
      WordBoundary # lit ''fetcher'' @ [WordBoundary],
      lit ''mcp-client'',
      lit ''agentid-client'' ]"

definition BROWSER_UA_RE :: regExp where
  "BROWSER_UA_RE = lit ''Mozilla/5.0''"

subsection \<open>The \<open>Headers\<close> class\<close>

text \<open>
  A \<open>Headers\<close> object maps a header name, which the class stores in lower case, to its
  value. \<open>get\<close> of a name that is not there is \<open>null\<close>.
\<close>

type_synonym headers = "string \<rightharpoonup> string"

definition headers_get :: "headers \<Rightarrow> string \<Rightarrow> string option" where
  "headers_get h name = h name"

definition headers_delete :: "headers \<Rightarrow> string \<Rightarrow> headers" where
  "headers_delete h name = h(name := None)"

section \<open>\<open>detect.ts\<close>\<close>

definition isAgentRequest :: "headers \<Rightarrow> bool" where
  "isAgentRequest hs =
     (let ua = (case headers_get hs ''user-agent'' of None \<Rightarrow> [] | Some v \<Rightarrow> v) in
      if ua = [] then True
      else if list_ex (\<lambda>p. test p ua) BOT_UA_PATTERNS then True
      else if \<not> test BROWSER_UA_RE ua \<and> \<not> truthy (headers_get hs ''accept-language'') then True
      else False)"

definition extractToken :: "headers \<Rightarrow> string option" where
  "extractToken hs =
     (let auth = (case headers_get hs ''authorization'' of None \<Rightarrow> [] | Some v \<Rightarrow> v);
          bearer = (if startsWith auth ''Bearer ''
                    then (let token = trim (slice auth 7) in
                          if token \<noteq> [] then Some token else None)
                    else None)
      in case bearer of
           Some token \<Rightarrow> Some token
         | None \<Rightarrow>
             (case map_option trim (headers_get hs ''x-agentid-token'') of
                Some custom \<Rightarrow> if custom \<noteq> [] then Some custom else None
              | None \<Rightarrow> None))"

section \<open>Values, errors and the process state\<close>

text \<open>A parsed JSON value. Numbers are the integers (unix seconds in the claims).\<close>

datatype json =
    JNull
  | JBool bool
  | JNum int
  | JStr string
  | JArr "json list"
  | JObj "(string \<times> json) list"

text \<open>The payload of a token is a JSON object; \<open>payload.name\<close> of a member that is not
  there is \<open>undefined\<close>.\<close>

type_synonym jwtPayload = "(string \<times> json) list"

definition getProp :: "jwtPayload \<Rightarrow> string \<Rightarrow> json option" where
  "getProp payload name = map_of payload name"

text \<open>
  The failure kinds of the token library, in the names of the specification's
  taxonomy. An \<open>Error\<close> is thrown by this package with the given message, a
  \<open>TypeError\<close> by \<open>new URL\<close> and by \<open>Headers.set\<close>, a \<open>SyntaxError\<close> by \<open>JSON.parse\<close>.
\<close>

datatype joseKind =
    MalformedToken
  | AlgorithmRejected
  | NetworkFailure
  | UnknownKeyId
  | SignatureInvalid
  | IssuerMismatch
  | TokenExpired

datatype error =
    Error string
  | TypeError string
  | SyntaxError string
  | JOSEError joseKind string

fun message :: "error \<Rightarrow> string" where
  "message (Error m) = m"
| "message (TypeError m) = m"
| "message (SyntaxError m) = m"
| "message (JOSEError k m) = m"

record URL =
  href :: string
  protocol :: string
  hostname :: string

text \<open>The value of \<open>createRemoteJWKSet(url, {cacheMaxAge})\<close>, kept as its arguments.\<close>

record remoteJWKSet =
  endpoint :: URL
  cacheMaxAge :: int

definition createRemoteJWKSet :: "URL \<Rightarrow> int \<Rightarrow> remoteJWKSet" where
  "createRemoteJWKSet u age = \<lparr>endpoint = u, cacheMaxAge = age\<rparr>"

record jwtVerifyOptions =
  issuer :: string
  algorithms :: "string list"
  clockTolerance :: int

text \<open>
  The state of the process: the module-level map \<open>jwksSets\<close>, the lines written by
  \<open>console.warn\<close>, and everything outside this package that a verification reads or
  changes (the clock, the network, the key material the library caches).
\<close>

record 'w state =
  jwksSets :: "string \<rightharpoonup> remoteJWKSet"
  console :: "string list"
  world :: 'w

text \<open>
  What the package takes from its platform and its one dependency: the URL parser
  (\<open>Inl\<close> the error \<open>new URL\<close> throws), \<open>jwtVerify\<close> of the token library, the decimal
  text of a number, and \<open>JSON.stringify\<close> and \<open>JSON.parse\<close>.
\<close>

record 'w env =
  parseURL :: "string \<Rightarrow> error + URL"
  jwtVerify :: "string \<Rightarrow> remoteJWKSet \<Rightarrow> jwtVerifyOptions \<Rightarrow> 'w \<Rightarrow> (error + jwtPayload) \<times> 'w"
  numberToString :: "int \<Rightarrow> string"
  JSON_stringify :: "jwtPayload \<Rightarrow> string"
  JSON_parse :: "string \<Rightarrow> error + json"

subsection \<open>\<open>Headers.set\<close>\<close>

text \<open>
  \<open>set\<close> strips leading and trailing HTTP white space from the value and throws a
  \<open>TypeError\<close> when what is left holds NUL, LF or CR.
\<close>

definition isHttpWhitespace :: "char \<Rightarrow> bool" where
  "isHttpWhitespace c = (c \<in> set [CHR 0x09, CHR 0x0A, CHR 0x0D, CHR 0x20])"

definition normalizeValue :: "string \<Rightarrow> string" where
  "normalizeValue v = rev (dropWhile isHttpWhitespace (rev (dropWhile isHttpWhitespace v)))"

definition isHeaderValue :: "string \<Rightarrow> bool" where
  "isHeaderValue v = (\<not> list_ex (\<lambda>c. c \<in> set [CHR 0x00, CHR 0x0A, CHR 0x0D]) v)"

definition headers_set :: "headers \<Rightarrow> string \<Rightarrow> string \<Rightarrow> error + headers" where
  "headers_set h name v =
     (let v' = normalizeValue v in
      if isHeaderValue v' then Inr (h(name \<mapsto> v'))
      else Inl (TypeError ''Invalid header value''))"

section \<open>\<open>verify.ts\<close>\<close>

definition DEFAULT_JWKS_URL :: string where
  "DEFAULT_JWKS_URL = ''https://agentidapp.vercel.app/api/jwks''"

definition isLocal :: "URL \<Rightarrow> bool" where
  "isLocal u =
     (hostname u = ''localhost'' \<or> hostname u = ''127.0.0.1'' \<or> hostname u = ''::1'')"

definition getJwks :: "'w env \<Rightarrow> string \<Rightarrow> 'w state \<Rightarrow> (error + remoteJWKSet) \<times> 'w state" where
  "getJwks env rawUrl s =
     (case jwksSets s rawUrl of
        Some cached \<Rightarrow> (Inr cached, s)
      | None \<Rightarrow>
          (case parseURL env rawUrl of
             Inl thrown \<Rightarrow> (Inl thrown, s)
           | Inr u \<Rightarrow>
               if protocol u \<noteq> ''https:'' \<and> \<not> isLocal u
               then (Inl (Error (''[agent-id] jwksUrl must use HTTPS, received: '' @ rawUrl)), s)
               else (let created = createRemoteJWKSet u (60 * 60 * 1000) in
                     (Inr created, s\<lparr>jwksSets := (jwksSets s)(rawUrl \<mapsto> created)\<rparr>))))"

text \<open>\<open>VerifyTokenOptions\<close>; the field \<open>tokenClockTolerance\<close> is its \<open>clockTolerance\<close>. An
  option that is not given is \<open>None\<close>.\<close>

record verifyTokenOptions =
  jwksUrl :: "string option"
  tokenClockTolerance :: "int option"

text \<open>
  The conversion \<open>ToString\<close> of ECMAScript on a value that \<open>JSON.parse\<close> built, as a template
  literal and \<open>Headers.set\<close> apply it. A primitive has its text. An array is the texts of
  its elements joined by commas, with the empty text for \<open>null\<close>. An object is converted
  through its \<open>toString\<close> member: the inherited one gives \<open>[object Object]\<close>, but a member
  of the object's own named \<open>toString\<close> is a JSON value, which cannot be called, and then
  the conversion throws a \<open>TypeError\<close>.
\<close>

fun toString :: "(int \<Rightarrow> string) \<Rightarrow> json \<Rightarrow> error + string"
  and arrayJoin :: "(int \<Rightarrow> string) \<Rightarrow> json list \<Rightarrow> error + string" where
  "toString num JNull = Inr ''null''"
| "toString num (JBool b) = Inr (if b then ''true'' else ''false'')"
| "toString num (JNum n) = Inr (num n)"
| "toString num (JStr x) = Inr x"
| "toString num (JArr xs) = arrayJoin num xs"
| "toString num (JObj members) =
     (if ''toString'' \<in> set (map fst members)
      then Inl (TypeError ''Cannot convert object to primitive value'')
      else Inr ''[object Object]'')"
| "arrayJoin num [] = Inr []"
| "arrayJoin num (x # xs) =
     (case (case x of JNull \<Rightarrow> Inr [] | _ \<Rightarrow> toString num x) of
        Inl thrown \<Rightarrow> Inl thrown
      | Inr first \<Rightarrow>
          if xs = [] then Inr first
          else (case arrayJoin num xs of
                  Inl thrown \<Rightarrow> Inl thrown
                | Inr others \<Rightarrow> Inr (first @ '','' @ others)))"

text \<open>The conversion of \<open>payload.name\<close>; \<open>None\<close> is \<open>undefined\<close>.\<close>

definition toStr :: "'w env \<Rightarrow> json option \<Rightarrow> error + string" where
  "toStr env v =
     (case v of
        None \<Rightarrow> Inr ''undefined''
      | Some j \<Rightarrow> toString (numberToString env) j)"

text \<open>\<open>v ?? "undefined"\<close>: the string \<open>undefined\<close> in place of \<open>null\<close> and \<open>undefined\<close>.\<close>

definition orUndefined :: "json option \<Rightarrow> json option" where
  "orUndefined v =
     (case v of
        None \<Rightarrow> Some (JStr ''undefined'')
      | Some JNull \<Rightarrow> Some (JStr ''undefined'')
      | Some other \<Rightarrow> Some other)"

definition verifyAgentIDToken ::
  "'w env \<Rightarrow> string \<Rightarrow> verifyTokenOptions \<Rightarrow> 'w state \<Rightarrow> (error + jwtPayload) \<times> 'w state" where
  "verifyAgentIDToken env token options s =
     (let rawUrl = (case jwksUrl options of None \<Rightarrow> DEFAULT_JWKS_URL | Some u \<Rightarrow> u) in
      case getJwks env rawUrl s of
        (Inl e, s1) \<Rightarrow> (Inl e, s1)
      | (Inr JWKS, s1) \<Rightarrow>
          (case jwtVerify env token JWKS
                  \<lparr>issuer = ''agentid'', algorithms = [''RS256''],
                   clockTolerance = (case tokenClockTolerance options of None \<Rightarrow> 30 | Some t \<Rightarrow> t)\<rparr>
                  (world s1) of
             (Inl e, w) \<Rightarrow> (Inl e, s1\<lparr>world := w\<rparr>)
           | (Inr payload, w) \<Rightarrow>
               if getProp payload ''auth_method'' \<noteq> Some (JStr ''bankid'')
               then (case toStr env (orUndefined (getProp payload ''auth_method'')) of
                       Inl thrown \<Rightarrow> (Inl thrown, s1\<lparr>world := w\<rparr>)
                     | Inr got \<Rightarrow>
                         (Inl (Error (''[agent-id] JWT has invalid auth_method: expected ''
                                       @ [CHR 0x22] @ ''bankid'' @ [CHR 0x22] @ '', got ''
                                       @ [CHR 0x22] @ got @ [CHR 0x22])),
                          s1\<lparr>world := w\<rparr>))
               else if (case getProp payload ''sub'' of Some (JStr sub) \<Rightarrow> sub = [] | _ \<Rightarrow> True)
               then (Inl (Error ''[agent-id] JWT is missing the sub claim''), s1\<lparr>world := w\<rparr>)
               else (Inr payload, s1\<lparr>world := w\<rparr>)))"

section \<open>\<open>middleware.ts\<close>\<close>

record nextRequest =
  url :: string
  headers :: headers

text \<open>
  The responses the proxy returns: \<open>NextResponse.next({request: {headers}})\<close>, which
  forwards the request with the given headers, \<open>NextResponse.json(body, {status})\<close>, and
  the response of the \<open>onUnauthorizedAgent\<close> callback, returned as it is.
\<close>

datatype 'r nextResponse =
    Next headers
  | Json "(string \<times> string) list" int
  | Custom 'r

text \<open>\<open>AgentIDMiddlewareOptions\<close>; the fields \<open>optJwksUrl\<close> and \<open>optClockTolerance\<close> are its
  \<open>jwksUrl\<close> and \<open>clockTolerance\<close>. The callback returns a response or nothing.\<close>

record 'r agentIDMiddlewareOptions =
  optJwksUrl :: "string option"
  blockUnauthorizedAgents :: "bool option"
  optClockTolerance :: "int option"
  onUnauthorizedAgent :: "(nextRequest \<Rightarrow> string \<Rightarrow> 'r option) option"

definition MANAGED_HEADERS :: "string list" where
  "MANAGED_HEADERS = [''x-agentid-verified'', ''x-agentid-sub'', ''x-agentid-claims'']"

definition unauthorized ::
  "nextRequest \<Rightarrow> headers \<Rightarrow> string \<Rightarrow> bool \<Rightarrow> (nextRequest \<Rightarrow> string \<Rightarrow> 'r option) option
     \<Rightarrow> error + 'r nextResponse" where
  "unauthorized request requestHeaders msg block onUnauthorized =
     (case (case onUnauthorized of None \<Rightarrow> None | Some callback \<Rightarrow> callback request msg) of
        Some custom \<Rightarrow> Inr (Custom custom)
      | None \<Rightarrow>
          if block
          then Inr (Json [(''error'', ''AGENT_UNAUTHORIZED''), (''message'', msg)] 403)
          else (case headers_set requestHeaders ''x-agentid-verified'' ''false'' of
                  Inl e \<Rightarrow> Inl e
                | Inr marked \<Rightarrow> Inr (Next marked)))"

definition stripManaged :: "headers \<Rightarrow> headers" where
  "stripManaged hs = fold (\<lambda>name acc. headers_delete acc name) MANAGED_HEADERS hs"

text \<open>The function \<open>createAgentIDMiddleware(options)\<close> returns, applied to a request.\<close>

definition agentIDMiddleware ::
  "'w env \<Rightarrow> 'r agentIDMiddlewareOptions \<Rightarrow> nextRequest \<Rightarrow> 'w state
     \<Rightarrow> (error + 'r nextResponse) \<times> 'w state" where
  "agentIDMiddleware env options request s =
     (let block = (case blockUnauthorizedAgents options of None \<Rightarrow> True | Some b \<Rightarrow> b);
          tolerance = (case optClockTolerance options of None \<Rightarrow> 30 | Some t \<Rightarrow> t);
          requestHeaders = stripManaged (headers request)
      in
      if \<not> isAgentRequest requestHeaders then (Inr (Next requestHeaders), s)
      else
        (case extractToken requestHeaders of
           None \<Rightarrow>
             (unauthorized request requestHeaders
                (''Agent request missing AgentID token. Provide '' @ [CHR 0x22]
                   @ ''Authorization: Bearer <token>'' @ [CHR 0x22] @ ''.'')
                block (onUnauthorizedAgent options), s)
         | Some token \<Rightarrow>
             if token = []
             then (unauthorized request requestHeaders
                     (''Agent request missing AgentID token. Provide '' @ [CHR 0x22]
                        @ ''Authorization: Bearer <token>'' @ [CHR 0x22] @ ''.'')
                     block (onUnauthorizedAgent options), s)
             else
               (case verifyAgentIDToken env token
                       \<lparr>jwksUrl = optJwksUrl options, tokenClockTolerance = Some tolerance\<rparr> s of
                  (Inl err, s1) \<Rightarrow>
                    (unauthorized request requestHeaders ''Invalid or expired AgentID token.''
                       block (onUnauthorizedAgent options),
                     s1\<lparr>console :=
                          console s1 @ [''[agent-id] Token verification failed: '' @ message err]\<rparr>)
                | (Inr claims, s1) \<Rightarrow>
                    (case headers_set requestHeaders ''x-agentid-verified'' ''true'' of
                       Inl e \<Rightarrow> (Inl e, s1)
                     | Inr h1 \<Rightarrow>
                         (case toStr env (getProp claims ''sub'') of
                            Inl e \<Rightarrow> (Inl e, s1)
                          | Inr sub \<Rightarrow>
                              (case headers_set h1 ''x-agentid-sub'' sub of
                                 Inl e \<Rightarrow> (Inl e, s1)
                               | Inr h2 \<Rightarrow>
                                   (case headers_set h2 ''x-agentid-claims''
                                           (JSON_stringify env claims) of
                                      Inl e \<Rightarrow> (Inl e, s1)
                                    | Inr h3 \<Rightarrow> (Inr (Next h3), s1))))))))"

section \<open>\<open>index.ts\<close>\<close>

datatype reason = not_agent | no_token | invalid_token

datatype agentIDResult = Verified json | Unverified reason

text \<open>The result is a sum so that a thrown error would show: the \<open>SyntaxError\<close> of
  \<open>JSON.parse\<close> is caught in the function.\<close>

definition getAgentIDResult :: "'w env \<Rightarrow> nextRequest \<Rightarrow> error + agentIDResult" where
  "getAgentIDResult env request =
     (let verified = headers_get (headers request) ''x-agentid-verified'' in
      if verified \<noteq> Some ''true''
      then Inr (Unverified (if verified = Some ''false'' then no_token else not_agent))
      else
        (case headers_get (headers request) ''x-agentid-claims'' of
           None \<Rightarrow> Inr (Unverified invalid_token)
         | Some claimsJson \<Rightarrow>
             if claimsJson = [] then Inr (Unverified invalid_token)
             else (case JSON_parse env claimsJson of
                     Inl thrown \<Rightarrow> Inr (Unverified invalid_token)
                   | Inr claims \<Rightarrow> Inr (Verified claims))))"

text \<open>The request a route handler behind the proxy receives after \<open>Next hs\<close>.\<close>

definition forwarded :: "nextRequest \<Rightarrow> headers \<Rightarrow> nextRequest" where
  "forwarded request hs = request\<lparr>headers := hs\<rparr>"

section \<open>The token library, as the specification describes it\<close>

text \<open>
  Modelled from the spec: a decoded compact token of the package \<open>jose\<close>, which is not
  among the sources (three segments: the protected header, the claims and the
  signature).
\<close>

record jws =
  protectedHeader :: "(string \<times> json) list"
  claimsSet :: jwtPayload
  signatureSegment :: string

text \<open>
  Modelled from the spec: what the library does outside the process, a key lookup at
  the endpoint (a network fetch when the key set is cold or stale) and a signature
  verification, and the world it does it in, the clock and the effects so far.
\<close>

datatype effect = KeyResolution | SignatureVerification

record libWorld =
  now :: int
  effects :: "effect list"

text \<open>
  Modelled from the spec: the parts of the library the specification leaves open, taken
  as parameters: the structural parse of a
  token (\<open>None\<close> when it is malformed), the lookup of the header's key in the key set of
  an endpoint, the signature check of a token against a key, and the message of each
  failure kind.
\<close>

record 'k jose =
  decodeToken :: "string \<Rightarrow> jws option"
  resolveKey :: "remoteJWKSet \<Rightarrow> (string \<times> json) list \<Rightarrow> joseKind + 'k"
  verifySignature :: "'k \<Rightarrow> string \<Rightarrow> bool"
  joseMessage :: "joseKind \<Rightarrow> string"

text \<open>Modelled from the spec: the error the library throws for a failure kind.\<close>

definition failure :: "'k jose \<Rightarrow> joseKind \<Rightarrow> error" where
  "failure lib k = JOSEError k (joseMessage lib k)"

text \<open>
  Modelled from the spec: \<open>jwtVerify\<close> of the package \<open>jose\<close>, which \<open>verify.ts\<close> imports and
  which is not among the sources. The definition follows steps 1 to 6 of section 4.4 of
  the specification, in their order, each step ending the verification when it fails:
  structural parse, algorithm allowlist on the protected header, key resolution,
  signature verification, issuer, and expiry (\<open>exp\<close> must be at least the current time
  minus the clock tolerance; a token without a numeric \<open>exp\<close> does not meet that).
\<close>

definition jwtVerifySpec ::
  "'k jose \<Rightarrow> string \<Rightarrow> remoteJWKSet \<Rightarrow> jwtVerifyOptions \<Rightarrow> libWorld
     \<Rightarrow> (error + jwtPayload) \<times> libWorld" where
  "jwtVerifySpec lib token JWKS opts w =
     (case decodeToken lib token of
        None \<Rightarrow> (Inl (failure lib MalformedToken), w)
      | Some t \<Rightarrow>
          if \<not> (case map_of (protectedHeader t) ''alg'' of
                   Some (JStr a) \<Rightarrow> a \<in> set (algorithms opts)
                 | _ \<Rightarrow> False)
          then (Inl (failure lib AlgorithmRejected), w)
          else
            (let w1 = w\<lparr>effects := effects w @ [KeyResolution]\<rparr> in
             case resolveKey lib JWKS (protectedHeader t) of
               Inl k \<Rightarrow> (Inl (failure lib k), w1)
             | Inr key \<Rightarrow>
                 (let w2 = w1\<lparr>effects := effects w1 @ [SignatureVerification]\<rparr> in
                  if \<not> verifySignature lib key token
                  then (Inl (failure lib SignatureInvalid), w2)
                  else if getProp (claimsSet t) ''iss'' \<noteq> Some (JStr (issuer opts))
                  then (Inl (failure lib IssuerMismatch), w2)
                  else if \<not> (case getProp (claimsSet t) ''exp'' of
                                Some (JNum e) \<Rightarrow> now w - clockTolerance opts \<le> e
                              | _ \<Rightarrow> False)
                  then (Inl (failure lib TokenExpired), w2)
                  else (Inr (claimsSet t), w2))))"

section \<open>The invariant of the key-set cache\<close>

text \<open>
  \<open>getJwks\<close> adds an entry to \<open>jwksSets\<close> only after the URL has parsed and passed the
  HTTPS check, and nothing removes or overwrites an entry. So in every state the process
  reaches from the empty map, each cached URL parses and is HTTPS or local.
\<close>

definition cacheSound :: "'w env \<Rightarrow> (string \<rightharpoonup> remoteJWKSet) \<Rightarrow> bool" where
  "cacheSound env cache =
     (\<forall>raw cached. cache raw = Some cached
        \<longrightarrow> (\<exists>u. parseURL env raw = Inr u \<and> (protocol u = ''https:'' \<or> isLocal u)))"

section \<open>What a route handler behind the proxy reads\<close>

text \<open>
  When the proxy forwards the request, the route handler calls \<open>getAgentIDResult\<close> on the
  request with the forwarded headers; when the proxy answers itself, no handler runs.
\<close>

definition downstream ::
  "'w env \<Rightarrow> 'r agentIDMiddlewareOptions \<Rightarrow> nextRequest \<Rightarrow> 'w state
     \<Rightarrow> (error + agentIDResult) option" where
  "downstream env options req s =
     (case fst (agentIDMiddleware env options req s) of
        Inr (Next hs) \<Rightarrow> Some (getAgentIDResult env (forwarded req hs))
      | _ \<Rightarrow> None)"

text \<open>The options \<open>agentIDMiddleware\<close> passes to \<open>verifyAgentIDToken\<close>.\<close>

definition verifierOptions :: "'r agentIDMiddlewareOptions \<Rightarrow> verifyTokenOptions" where
  "verifierOptions options =
     \<lparr>jwksUrl = optJwksUrl options,
      tokenClockTolerance =
        Some (case optClockTolerance options of None \<Rightarrow> 30 | Some t \<Rightarrow> t)\<rparr>"

definition blocking :: "'r agentIDMiddlewareOptions \<Rightarrow> bool" where
  "blocking options = (case blockUnauthorizedAgents options of None \<Rightarrow> True | Some b \<Rightarrow> b)"

section \<open>Example inputs\<close>

subsection \<open>Header sets\<close>

definition bothTokenHeaders :: headers where
  "bothTokenHeaders =
     map_of [(''authorization'', ''Bearer primary-token''),
             (''x-agentid-token'', ''fallback-token'')]"

definition emptyBearerHeaders :: headers where
  "emptyBearerHeaders =
     map_of [(''authorization'', ''Bearer  ''), (''x-agentid-token'', ''  my.token.here  '')]"

definition basicAuthHeaders :: headers where
  "basicAuthHeaders = map_of [(''authorization'', ''Basic dXNlcjpwYXNz'')]"

definition fallbackOnlyHeaders :: headers where
  "fallbackOnlyHeaders = map_of [(''x-agentid-token'', ''abc.def.ghi'')]"

definition basicAuthFallbackHeaders :: headers where
  "basicAuthFallbackHeaders =
     map_of [(''authorization'', ''Basic dXNlcjpwYXNz''), (''x-agentid-token'', '' abc.def.ghi'')]"

definition customAgentHeaders :: headers where
  "customAgentHeaders = map_of [(''user-agent'', ''MyCustomAgent/1.0'')]"

definition customAgentLanguageHeaders :: headers where
  "customAgentLanguageHeaders =
     map_of [(''user-agent'', ''MyCustomAgent/1.0''), (''accept-language'', ''en'')]"

definition customAgentEmptyLanguageHeaders :: headers where
  "customAgentEmptyLanguageHeaders =
     map_of [(''user-agent'', ''MyCustomAgent/1.0''), (''accept-language'', [])]"

subsection \<open>A platform with a fixed verifier\<close>

definition exampleParseURL :: "string \<Rightarrow> error + URL" where
  "exampleParseURL raw =
     (if raw = ''https://agentidapp.vercel.app/api/jwks''
      then Inr \<lparr>href = raw, protocol = ''https:'', hostname = ''agentidapp.vercel.app''\<rparr>
      else if raw = ''http://attacker.com/api/jwks''
      then Inr \<lparr>href = raw, protocol = ''http:'', hostname = ''attacker.com''\<rparr>
      else if raw = ''http://localhost:3000/api/jwks''
      then Inr \<lparr>href = raw, protocol = ''http:'', hostname = ''localhost''\<rparr>
      else Inl (TypeError ''Invalid URL''))"

definition exampleClaims :: jwtPayload where
  "exampleClaims =
     [(''auth_method'', JStr ''bankid''), (''iss'', JStr ''agentid''),
      (''sub'', JStr ''abc123pseudosub''), (''iat'', JNum 400), (''jti'', JStr ''j1''),
      (''exp'', JNum 1000)]"

definition passwordClaims :: jwtPayload where
  "passwordClaims =
     [(''auth_method'', JStr ''password''), (''iss'', JStr ''agentid''),
      (''sub'', JStr ''abc123pseudosub''), (''iat'', JNum 400), (''jti'', JStr ''j2''),
      (''exp'', JNum 1000)]"

text \<open>Claims whose \<open>auth_method\<close> is the JSON object \<open>{"toString": null}\<close>.\<close>

definition objectClaims :: jwtPayload where
  "objectClaims =
     [(''auth_method'', JObj [(''toString'', JNull)]), (''iss'', JStr ''agentid''),
      (''sub'', JStr ''abc123pseudosub''), (''iat'', JNum 400), (''jti'', JStr ''j3''),
      (''exp'', JNum 1000)]"

text \<open>A verifier that accepts three tokens and rejects the others, for two different
  reasons.\<close>

definition stubVerify ::
  "string \<Rightarrow> remoteJWKSet \<Rightarrow> jwtVerifyOptions \<Rightarrow> unit \<Rightarrow> (error + jwtPayload) \<times> unit" where
  "stubVerify token JWKS opts w =
     (if token = ''valid.bankid.token'' then (Inr exampleClaims, w)
      else if token = ''valid.password.token'' then (Inr passwordClaims, w)
      else if token = ''valid.object.token'' then (Inr objectClaims, w)
      else if token = ''expired.token'' then (Inl (JOSEError TokenExpired ''exp check failed''), w)
      else (Inl (JOSEError MalformedToken ''Invalid Compact JWS''), w))"

definition stubParse :: "string \<Rightarrow> error + json" where
  "stubParse text =
     (if text = ''{}'' then Inr (JObj []) else Inl (SyntaxError ''Unexpected token''))"

definition stubEnv :: "unit env" where
  "stubEnv =
     \<lparr>parseURL = exampleParseURL, jwtVerify = stubVerify,
      numberToString = (\<lambda>n. ''1000''), JSON_stringify = (\<lambda>p. ''{}''),
      JSON_parse = stubParse\<rparr>"

definition freshState :: "unit state" where
  "freshState = \<lparr>jwksSets = Map.empty, console = [], world = ()\<rparr>"

definition nonBlocking :: "unit agentIDMiddlewareOptions" where
  "nonBlocking =
     \<lparr>optJwksUrl = None, blockUnauthorizedAgents = Some False, optClockTolerance = None,
      onUnauthorizedAgent = None\<rparr>"

definition defaults :: "unit agentIDMiddlewareOptions" where
  "defaults =
     \<lparr>optJwksUrl = None, blockUnauthorizedAgents = None, optClockTolerance = None,
      onUnauthorizedAgent = None\<rparr>"

definition request :: "(string \<times> string) list \<Rightarrow> nextRequest" where
  "request hs = \<lparr>url = ''https://example.com/api/data'', headers = map_of hs\<rparr>"

subsection \<open>A token library for the specification's verifier\<close>

definition exampleToken :: "string \<Rightarrow> jws" where
  "exampleToken alg =
     \<lparr>protectedHeader = [(''alg'', JStr alg), (''kid'', JStr ''test-key-1'')],
      claimsSet = exampleClaims, signatureSegment = (if alg = ''none'' then [] else ''c2ln'')\<rparr>"

definition exampleLib :: "unit jose" where
  "exampleLib =
     \<lparr>decodeToken =
        (\<lambda>token. if token = ''rs256.token'' then Some (exampleToken ''RS256'')
                  else if token = ''none.token.'' then Some (exampleToken ''none'')
                  else if token = ''hs256.token'' then Some (exampleToken ''HS256'')
                  else None),
      resolveKey = (\<lambda>JWKS header. Inr ()),
      verifySignature = (\<lambda>key token. token = ''rs256.token''),
      joseMessage = (\<lambda>k. ''token rejected'')\<rparr>"

definition specEnv :: "libWorld env" where
  "specEnv =
     \<lparr>parseURL = exampleParseURL, jwtVerify = jwtVerifySpec exampleLib,
      numberToString = (\<lambda>n. ''1000''), JSON_stringify = (\<lambda>p. ''{}''),
      JSON_parse = stubParse\<rparr>"

definition specState :: "int \<Rightarrow> libWorld state" where
  "specState t = \<lparr>jwksSets = Map.empty, console = [], world = \<lparr>now = t, effects = []\<rparr>\<rparr>"

subsection \<open>Requests\<close>



definition expiredTokenRequest :: nextRequest where
  "expiredTokenRequest =
     request [(''user-agent'', ''curl/7.88.1''), (''authorization'', ''Bearer expired.token'')]"

definition malformedTokenRequest :: nextRequest where
  "malformedTokenRequest =
     request [(''user-agent'', ''python-requests/2.31.0''), (''x-agentid-token'', ''not.a.jwt'')]"

definition noTokenRequest :: nextRequest where
  "noTokenRequest = request [(''user-agent'', ''curl/7.88.1'')]"

section \<open>Basic facts\<close>

lemma headers_set_true: "headers_set h name ''true'' = Inr (h(name \<mapsto> ''true''))"
  by (simp add: headers_set_def normalizeValue_def isHttpWhitespace_def isHeaderValue_def)

lemma headers_set_false: "headers_set h name ''false'' = Inr (h(name \<mapsto> ''false''))"
  by (simp add: headers_set_def normalizeValue_def isHttpWhitespace_def isHeaderValue_def)




lemma getJwks_world: "world (snd (getJwks env raw s)) = world s"
  by (simp add: getJwks_def Let_def split: option.splits sum.splits)

lemma cacheSound_empty: "cacheSound env Map.empty"
  by (simp add: cacheSound_def)

lemma cacheSound_getJwks:
  assumes "cacheSound env (jwksSets s)"
  shows "cacheSound env (jwksSets (snd (getJwks env raw s)))"
proof (cases "jwksSets s raw")
  case (Some cached)
  then show ?thesis using assms by (simp add: getJwks_def Let_def)
next
  case None
  show ?thesis
  proof (cases "parseURL env raw")
    case (Inl thrown)
    with None assms show ?thesis by (simp add: getJwks_def Let_def)
  next
    case (Inr u)
    with None assms show ?thesis
      by (auto simp add: getJwks_def Let_def cacheSound_def)
  qed
qed

lemma verifyAgentIDToken_jwksSets:
  "jwksSets (snd (verifyAgentIDToken env token options s))
     = jwksSets (snd (getJwks env (case jwksUrl options of None \<Rightarrow> DEFAULT_JWKS_URL | Some u \<Rightarrow> u) s))"
  by (simp add: verifyAgentIDToken_def Let_def split: prod.splits sum.splits)

lemma cacheSound_verifyAgentIDToken:
  assumes "cacheSound env (jwksSets s)"
  shows "cacheSound env (jwksSets (snd (verifyAgentIDToken env token options s)))"
  using cacheSound_getJwks [OF assms] by (simp add: verifyAgentIDToken_jwksSets)

lemma agentIDMiddleware_jwksSets:
  "jwksSets (snd (agentIDMiddleware env options req s))
     = (case extractToken (stripManaged (headers req)) of
          None \<Rightarrow> jwksSets s
        | Some token \<Rightarrow>
            if isAgentRequest (stripManaged (headers req)) \<and> token \<noteq> []
            then jwksSets (snd (verifyAgentIDToken env token
                    \<lparr>jwksUrl = optJwksUrl options,
                     tokenClockTolerance =
                       Some (case optClockTolerance options of None \<Rightarrow> 30 | Some t \<Rightarrow> t)\<rparr> s))
            else jwksSets s)"
  by (simp add: agentIDMiddleware_def Let_def split: option.splits prod.splits sum.splits)

lemma cacheSound_agentIDMiddleware:
  assumes "cacheSound env (jwksSets s)"
  shows "cacheSound env (jwksSets (snd (agentIDMiddleware env options req s)))"
  using assms cacheSound_verifyAgentIDToken [OF assms]
  by (simp add: agentIDMiddleware_jwksSets split: option.splits)

lemma stringIncludes_here: "stringIncludes (p @ after) p"
proof (cases "p @ after")
  case Nil
  then show ?thesis by simp
next
  case (Cons x xs)
  have "startsWith (p @ after) p"
    by (simp add: startsWith_def)
  then show ?thesis
    unfolding Cons by simp
qed

lemma stringIncludes_append: "stringIncludes (before @ p @ after) p"
  by (induction before) (simp_all add: stringIncludes_here)

lemma extractToken_nonempty: "extractToken hs = Some token \<Longrightarrow> token \<noteq> []"
  by (auto simp add: extractToken_def Let_def split: if_splits option.splits)

subsection \<open>The paths of the proxy\<close>


lemma agentIDMiddleware_no_token:
  assumes "isAgentRequest (stripManaged (headers req))"
    and "extractToken (stripManaged (headers req)) = None"
  shows "agentIDMiddleware env options req s
           = (unauthorized req (stripManaged (headers req))
                (''Agent request missing AgentID token. Provide '' @ [CHR 0x22]
                   @ ''Authorization: Bearer <token>'' @ [CHR 0x22] @ ''.'')
                (blocking options) (onUnauthorizedAgent options), s)"
  using assms by (simp add: agentIDMiddleware_def Let_def blocking_def)

lemma agentIDMiddleware_invalid:
  assumes "isAgentRequest (stripManaged (headers req))"
    and "extractToken (stripManaged (headers req)) = Some token"
    and "fst (verifyAgentIDToken env token (verifierOptions options) s) = Inl err"
  shows "fst (agentIDMiddleware env options req s)
           = unauthorized req (stripManaged (headers req)) ''Invalid or expired AgentID token.''
               (blocking options) (onUnauthorizedAgent options)"
proof -
  obtain s1 where "verifyAgentIDToken env token (verifierOptions options) s = (Inl err, s1)"
    using assms(3) by (cases "verifyAgentIDToken env token (verifierOptions options) s") simp
  with assms(1,2) extractToken_nonempty [OF assms(2)] show ?thesis
    by (simp add: agentIDMiddleware_def Let_def blocking_def verifierOptions_def)
qed






section \<open>Token extraction\<close>

text \<open>
  Claim C7, as stated, at a concrete header set. The request has no Authorization
  header, so there is no Bearer prefix and no Bearer remainder that trims to empty: of
  the three cases of the claim only the last is left, which says that no token is
  returned. The fallback header \<open>x-agentid-token\<close> holds \<open>abc.def.ghi\<close>, and
  \<open>extractToken\<close> returns it.
\<close>

theorem extractToken_fallback_only_counterexample:
  "headers_get fallbackOnlyHeaders ''authorization'' = None
   \<and> headers_get fallbackOnlyHeaders ''x-agentid-token'' = Some ''abc.def.ghi''
   \<and> extractToken fallbackOnlyHeaders = Some ''abc.def.ghi''"
  by code_simp

text \<open>
  Claim C7, amended. For every header set: when the Authorization header is the
  case-exact prefix \<open>Bearer \<close> followed by a remainder that is not empty once trimmed,
  \<open>extractToken\<close> returns the trimmed remainder, whatever the fallback header holds;
  when there is no such Bearer token (the Authorization header is absent, has another
  scheme, or its Bearer remainder trims to the empty string), it returns the trimmed
  fallback header if that is not empty; and otherwise (no Bearer token and no non-empty
  fallback) it returns no token, so that a non-Bearer scheme alone yields no token.
\<close>

theorem extractToken_precedence:
  "(headers_get hs ''authorization'' = Some (''Bearer '' @ r) \<and> trim r \<noteq> []
      \<longrightarrow> extractToken hs = Some (trim r))
   \<and> ((headers_get hs ''authorization'' = None
         \<or> (\<exists>a. headers_get hs ''authorization'' = Some a \<and> \<not> startsWith a ''Bearer '')
         \<or> (\<exists>q. headers_get hs ''authorization'' = Some (''Bearer '' @ q) \<and> trim q = []))
        \<and> headers_get hs ''x-agentid-token'' = Some c \<and> trim c \<noteq> []
      \<longrightarrow> extractToken hs = Some (trim c))
   \<and> ((headers_get hs ''authorization'' = None
         \<or> (\<exists>a. headers_get hs ''authorization'' = Some a \<and> \<not> startsWith a ''Bearer '')
         \<or> (\<exists>q. headers_get hs ''authorization'' = Some (''Bearer '' @ q) \<and> trim q = []))
        \<and> (headers_get hs ''x-agentid-token'' = None
             \<or> (\<exists>d. headers_get hs ''x-agentid-token'' = Some d \<and> trim d = []))
      \<longrightarrow> extractToken hs = None)"
  by (auto simp add: extractToken_def startsWith_def slice_def)

theorem extractToken_precedence_witness:
  "extractToken bothTokenHeaders = Some ''primary-token''
   \<and> extractToken emptyBearerHeaders = Some ''my.token.here''
   \<and> extractToken fallbackOnlyHeaders = Some ''abc.def.ghi''
   \<and> extractToken basicAuthFallbackHeaders = Some ''abc.def.ghi''
   \<and> extractToken basicAuthHeaders = None"
proof -
  have a: "headers_get bothTokenHeaders ''authorization'' = Some (''Bearer '' @ ''primary-token'')
           \<and> trim ''primary-token'' \<noteq> []"
    by code_simp
  have b: "headers_get emptyBearerHeaders ''authorization'' = Some (''Bearer '' @ '' '')
           \<and> trim '' '' = []
           \<and> headers_get emptyBearerHeaders ''x-agentid-token'' = Some ''  my.token.here  ''
           \<and> trim ''  my.token.here  '' \<noteq> []"
    by code_simp
  have c: "headers_get fallbackOnlyHeaders ''authorization'' = None
           \<and> headers_get fallbackOnlyHeaders ''x-agentid-token'' = Some ''abc.def.ghi''
           \<and> trim ''abc.def.ghi'' \<noteq> []"
    by code_simp
  have d: "headers_get basicAuthFallbackHeaders ''authorization'' = Some ''Basic dXNlcjpwYXNz''
           \<and> \<not> startsWith ''Basic dXNlcjpwYXNz'' ''Bearer ''
           \<and> headers_get basicAuthFallbackHeaders ''x-agentid-token'' = Some '' abc.def.ghi''
           \<and> trim '' abc.def.ghi'' \<noteq> []"
    by code_simp
  have e: "headers_get basicAuthHeaders ''authorization'' = Some ''Basic dXNlcjpwYXNz''
           \<and> \<not> startsWith ''Basic dXNlcjpwYXNz'' ''Bearer ''
           \<and> headers_get basicAuthHeaders ''x-agentid-token'' = None"
    by code_simp
  have ta: "trim ''primary-token'' = ''primary-token''"
    by code_simp
  have tb: "trim ''  my.token.here  '' = ''my.token.here''"
    by code_simp
  have tc: "trim ''abc.def.ghi'' = ''abc.def.ghi''"
    by code_simp
  have td: "trim '' abc.def.ghi'' = ''abc.def.ghi''"
    by code_simp
  from a extractToken_precedence [of bothTokenHeaders "''primary-token''"]
  have 1: "extractToken bothTokenHeaders = Some ''primary-token''"
    by (simp only: ta) blast
  from b extractToken_precedence [of emptyBearerHeaders _ "''  my.token.here  ''"]
  have 2: "extractToken emptyBearerHeaders = Some ''my.token.here''"
    by (simp only: tb) blast
  from c extractToken_precedence [of fallbackOnlyHeaders _ "''abc.def.ghi''"]
  have 3: "extractToken fallbackOnlyHeaders = Some ''abc.def.ghi''"
    by (simp only: tc) blast
  from d extractToken_precedence [of basicAuthFallbackHeaders _ "'' abc.def.ghi''"]
  have 4: "extractToken basicAuthFallbackHeaders = Some ''abc.def.ghi''"
    by (simp only: td) blast
  from e extractToken_precedence [of basicAuthHeaders]
  have 5: "extractToken basicAuthHeaders = None"
    by blast
  from 1 2 3 4 5 show ?thesis by blast
qed

section \<open>Request classification\<close>

text \<open>
  Claim C9, as stated, at a concrete header set. The User-Agent \<open>MyCustomAgent/1.0\<close> is
  not empty, matches no pattern of \<open>BOT_UA_PATTERNS\<close> and has no browser marker; the
  Accept-Language header is present with the empty value. The claim says such a request
  is classified human; \<open>isAgentRequest\<close> returns true, because it reads an empty
  Accept-Language as a missing one, as it does for an empty User-Agent.
\<close>

theorem isAgentRequest_empty_language_counterexample:
  "headers_get customAgentEmptyLanguageHeaders ''user-agent'' = Some ''MyCustomAgent/1.0''
   \<and> \<not> list_ex (\<lambda>p. test p ''MyCustomAgent/1.0'') BOT_UA_PATTERNS
   \<and> headers_get customAgentEmptyLanguageHeaders ''accept-language'' \<noteq> None
   \<and> isAgentRequest customAgentEmptyLanguageHeaders"
  by code_simp

text \<open>
  Claim C9, amended. For every header set with a non-empty User-Agent that matches no
  pattern of \<open>BOT_UA_PATTERNS\<close>: if the User-Agent has no browser marker and
  Accept-Language is absent or empty, \<open>isAgentRequest\<close> returns true; if Accept-Language
  is present with a non-empty value, \<open>isAgentRequest\<close> returns false.
\<close>

theorem isAgentRequest_tie_break:
  assumes "headers_get hs ''user-agent'' = Some ua"
    and "ua \<noteq> []"
    and "\<not> list_ex (\<lambda>p. test p ua) BOT_UA_PATTERNS"
  shows "(\<not> test BROWSER_UA_RE ua
            \<and> (headers_get hs ''accept-language'' = None
                 \<or> headers_get hs ''accept-language'' = Some [])
          \<longrightarrow> isAgentRequest hs)
       \<and> ((\<exists>al. headers_get hs ''accept-language'' = Some al \<and> al \<noteq> [])
          \<longrightarrow> \<not> isAgentRequest hs)"
  using assms
  by (cases "headers_get hs ''accept-language''") (auto simp add: isAgentRequest_def)

theorem isAgentRequest_tie_break_witness:
  "isAgentRequest customAgentHeaders \<and> \<not> isAgentRequest customAgentLanguageHeaders"
proof -
  have nobot: "\<not> list_ex (\<lambda>p. test p ''MyCustomAgent/1.0'') BOT_UA_PATTERNS"
    by code_simp
  have nomarker: "\<not> test BROWSER_UA_RE ''MyCustomAgent/1.0''"
    by code_simp
  have ua1: "headers_get customAgentHeaders ''user-agent'' = Some ''MyCustomAgent/1.0''"
    by code_simp
  have al1: "headers_get customAgentHeaders ''accept-language'' = None"
    by code_simp
  have ua2: "headers_get customAgentLanguageHeaders ''user-agent'' = Some ''MyCustomAgent/1.0''"
    by code_simp
  have al2: "headers_get customAgentLanguageHeaders ''accept-language'' = Some ''en''"
    by code_simp
  have ne: "''MyCustomAgent/1.0'' \<noteq> []"
    by simp
  from isAgentRequest_tie_break [OF ua1 ne nobot] nomarker al1
  have 1: "isAgentRequest customAgentHeaders"
    by blast
  from isAgentRequest_tie_break [OF ua2 ne nobot] al2
  have 2: "\<not> isAgentRequest customAgentLanguageHeaders"
    by blast
  from 1 2 show ?thesis by blast
qed

section \<open>Reading the result downstream\<close>

text \<open>
  Claim C10. \<open>getAgentIDResult\<close> never throws: on every request it returns a result.
  When the header \<open>x-agentid-verified\<close> is exactly \<open>true\<close> and the header
  \<open>x-agentid-claims\<close> is absent or is not parseable as JSON, the result is unverified
  with the reason \<open>invalid_token\<close>; when \<open>x-agentid-verified\<close> is absent or is neither
  \<open>true\<close> nor \<open>false\<close>, the result is unverified with the reason \<open>not_agent\<close>.
\<close>

theorem getAgentIDResult_total:
  "(\<exists>r. getAgentIDResult env req = Inr r)
   \<and> (headers_get (headers req) ''x-agentid-verified'' = Some ''true''
        \<and> (headers_get (headers req) ''x-agentid-claims'' = None
             \<or> (\<exists>c thrown. headers_get (headers req) ''x-agentid-claims'' = Some c
                     \<and> JSON_parse env c = Inl thrown))
      \<longrightarrow> getAgentIDResult env req = Inr (Unverified invalid_token))
   \<and> (headers_get (headers req) ''x-agentid-verified'' \<noteq> Some ''true''
        \<and> headers_get (headers req) ''x-agentid-verified'' \<noteq> Some ''false''
      \<longrightarrow> getAgentIDResult env req = Inr (Unverified not_agent))"
  by (auto simp add: getAgentIDResult_def Let_def split: option.splits sum.splits)

theorem getAgentIDResult_total_witness:
  "getAgentIDResult stubEnv
      (request [(''x-agentid-verified'', ''true''), (''x-agentid-claims'', ''{sub:'')])
     = Inr (Unverified invalid_token)
   \<and> getAgentIDResult stubEnv (request [(''x-agentid-verified'', ''true'')])
     = Inr (Unverified invalid_token)
   \<and> getAgentIDResult stubEnv (request [(''x-agentid-verified'', ''TRUE'')])
     = Inr (Unverified not_agent)
   \<and> getAgentIDResult stubEnv (request []) = Inr (Unverified not_agent)"
proof -
  let ?bad = "request [(''x-agentid-verified'', ''true''), (''x-agentid-claims'', ''{sub:'')]"
  let ?none = "request [(''x-agentid-verified'', ''true'')]"
  let ?upper = "request [(''x-agentid-verified'', ''TRUE'')]"
  let ?empty = "request []"
  have a: "headers_get (headers ?bad) ''x-agentid-verified'' = Some ''true''
           \<and> headers_get (headers ?bad) ''x-agentid-claims'' = Some ''{sub:''
           \<and> JSON_parse stubEnv ''{sub:'' = Inl (SyntaxError ''Unexpected token'')"
    by code_simp
  have b: "headers_get (headers ?none) ''x-agentid-verified'' = Some ''true''
           \<and> headers_get (headers ?none) ''x-agentid-claims'' = None"
    by code_simp
  have c: "headers_get (headers ?upper) ''x-agentid-verified'' \<noteq> Some ''true''
           \<and> headers_get (headers ?upper) ''x-agentid-verified'' \<noteq> Some ''false''"
    by code_simp
  have d: "headers_get (headers ?empty) ''x-agentid-verified'' \<noteq> Some ''true''
           \<and> headers_get (headers ?empty) ''x-agentid-verified'' \<noteq> Some ''false''"
    by code_simp
  from a getAgentIDResult_total [of stubEnv ?bad]
  have 1: "getAgentIDResult stubEnv ?bad = Inr (Unverified invalid_token)"
    by blast
  from b getAgentIDResult_total [of stubEnv ?none]
  have 2: "getAgentIDResult stubEnv ?none = Inr (Unverified invalid_token)"
    by blast
  from c getAgentIDResult_total [of stubEnv ?upper]
  have 3: "getAgentIDResult stubEnv ?upper = Inr (Unverified not_agent)"
    by blast
  from d getAgentIDResult_total [of stubEnv ?empty]
  have 4: "getAgentIDResult stubEnv ?empty = Inr (Unverified not_agent)"
    by blast
  from 1 2 3 4 show ?thesis by blast
qed

section \<open>Key-set acquisition\<close>

text \<open>
  Claim C6. In every state whose cache is sound: a \<open>jwksUrl\<close> that parses to a URL whose
  protocol is not \<open>https:\<close> and whose hostname is none of \<open>localhost\<close>, \<open>127.0.0.1\<close> and
  \<open>::1\<close> makes \<open>getJwks\<close>, and with it \<open>verifyAgentIDToken\<close>, fail with the error
  \<open>jwksUrl must use HTTPS\<close> and leave the state as it was, so that the token library is
  not called and nothing is fetched; an \<open>http:\<close> URL with the hostname \<open>localhost\<close> is
  accepted by \<open>getJwks\<close>; and a string that does not parse as a URL fails with the
  error the parser throws, again with the state as it was.
\<close>

theorem getJwks_requires_https:
  assumes "cacheSound env (jwksSets s)"
  shows "(parseURL env raw = Inr u \<and> protocol u \<noteq> ''https:''
            \<and> hostname u \<noteq> ''localhost'' \<and> hostname u \<noteq> ''127.0.0.1'' \<and> hostname u \<noteq> ''::1''
          \<longrightarrow> getJwks env raw s
                = (Inl (Error (''[agent-id] jwksUrl must use HTTPS, received: '' @ raw)), s)
              \<and> verifyAgentIDToken env token \<lparr>jwksUrl = Some raw, tokenClockTolerance = tol\<rparr> s
                = (Inl (Error (''[agent-id] jwksUrl must use HTTPS, received: '' @ raw)), s))
       \<and> (parseURL env raw = Inr u \<and> protocol u = ''http:'' \<and> hostname u = ''localhost''
          \<longrightarrow> (\<exists>handle s'. getJwks env raw s = (Inr handle, s')))
       \<and> (parseURL env raw = Inl thrown
          \<longrightarrow> getJwks env raw s = (Inl thrown, s)
              \<and> verifyAgentIDToken env token \<lparr>jwksUrl = Some raw, tokenClockTolerance = tol\<rparr> s
                = (Inl thrown, s))"
proof (cases "jwksSets s raw")
  case None
  then show ?thesis
    by (auto simp add: getJwks_def Let_def verifyAgentIDToken_def isLocal_def)
next
  case (Some cached)
  with assms obtain v where v: "parseURL env raw = Inr v" "protocol v = ''https:'' \<or> isLocal v"
    by (auto simp add: cacheSound_def)
  with Some show ?thesis
    by (auto simp add: getJwks_def Let_def isLocal_def)
qed

theorem getJwks_requires_https_witness:
  "verifyAgentIDToken stubEnv ''valid.bankid.token''
      \<lparr>jwksUrl = Some ''http://attacker.com/api/jwks'', tokenClockTolerance = None\<rparr> freshState
     = (Inl (Error ''[agent-id] jwksUrl must use HTTPS, received: http://attacker.com/api/jwks''),
        freshState)
   \<and> (\<exists>handle s'. getJwks stubEnv ''http://localhost:3000/api/jwks'' freshState = (Inr handle, s'))
   \<and> getJwks stubEnv ''not a url'' freshState = (Inl (TypeError ''Invalid URL''), freshState)"
proof -
  have sound: "cacheSound stubEnv (jwksSets freshState)"
    by (simp add: freshState_def cacheSound_empty)
  have a: "parseURL stubEnv ''http://attacker.com/api/jwks''
             = Inr \<lparr>href = ''http://attacker.com/api/jwks'', protocol = ''http:'',
                     hostname = ''attacker.com''\<rparr>"
    by code_simp
  have b: "parseURL stubEnv ''http://localhost:3000/api/jwks''
             = Inr \<lparr>href = ''http://localhost:3000/api/jwks'', protocol = ''http:'',
                     hostname = ''localhost''\<rparr>"
    by code_simp
  have c: "parseURL stubEnv ''not a url'' = Inl (TypeError ''Invalid URL'')"
    by code_simp
  from a getJwks_requires_https [OF sound, where raw = "''http://attacker.com/api/jwks''"
      and u = "\<lparr>href = ''http://attacker.com/api/jwks'', protocol = ''http:'',
                hostname = ''attacker.com''\<rparr>"
      and token = "''valid.bankid.token''" and tol = None]
  have 1: "verifyAgentIDToken stubEnv ''valid.bankid.token''
      \<lparr>jwksUrl = Some ''http://attacker.com/api/jwks'', tokenClockTolerance = None\<rparr> freshState
     = (Inl (Error ''[agent-id] jwksUrl must use HTTPS, received: http://attacker.com/api/jwks''),
        freshState)"
    by simp
  from b getJwks_requires_https [OF sound, where raw = "''http://localhost:3000/api/jwks''"
      and u = "\<lparr>href = ''http://localhost:3000/api/jwks'', protocol = ''http:'',
                hostname = ''localhost''\<rparr>"]
  have 2: "\<exists>handle s'. getJwks stubEnv ''http://localhost:3000/api/jwks'' freshState = (Inr handle, s')"
    by simp
  from c getJwks_requires_https [OF sound, where raw = "''not a url''"
      and thrown = "TypeError ''Invalid URL''"]
  have 3: "getJwks stubEnv ''not a url'' freshState = (Inl (TypeError ''Invalid URL''), freshState)"
    by simp
  from 1 2 3 show ?thesis by blast
qed

section \<open>The claims of the AgentID profile\<close>

text \<open>
  Claim C8, as the code has it. Take a token that the key set is obtained for and that
  \<open>jwtVerify\<close> accepts (the structural, signature, issuer and expiry checks of the
  library), with the payload it returns. If \<open>auth_method\<close> is absent or is anything
  but the string \<open>bankid\<close>, \<open>verifyAgentIDToken\<close> fails. The failure is an \<open>Error\<close> whose
  message contains \<open>auth_method\<close> when the value converts to a string; when the
  conversion throws (a JSON object with a member named \<open>toString\<close>, alone or in an
  array), the failure is that \<open>TypeError\<close>, thrown while the message is put together, and
  it does not name the field, which is where the code leaves the claim. If \<open>auth_method\<close>
  is \<open>bankid\<close> and \<open>sub\<close> is a non-empty string, the whole payload is returned.
\<close>

theorem verifyAgentIDToken_auth_method:
  assumes "getJwks env (case jwksUrl options of None \<Rightarrow> DEFAULT_JWKS_URL | Some u \<Rightarrow> u) s
             = (Inr JWKS, s1)"
    and "jwtVerify env token JWKS
           \<lparr>issuer = ''agentid'', algorithms = [''RS256''],
            clockTolerance = (case tokenClockTolerance options of None \<Rightarrow> 30 | Some t \<Rightarrow> t)\<rparr>
           (world s1) = (Inr payload, w)"
  shows "(getProp payload ''auth_method'' \<noteq> Some (JStr ''bankid'')
          \<longrightarrow> (\<exists>e. fst (verifyAgentIDToken env token options s) = Inl e)
              \<and> (toStr env (orUndefined (getProp payload ''auth_method'')) = Inr got
                  \<longrightarrow> (\<exists>m. fst (verifyAgentIDToken env token options s) = Inl (Error m)
                          \<and> stringIncludes m ''auth_method''))
              \<and> (toStr env (orUndefined (getProp payload ''auth_method'')) = Inl thrown
                  \<longrightarrow> fst (verifyAgentIDToken env token options s) = Inl thrown))
       \<and> (getProp payload ''auth_method'' = Some (JStr ''bankid'')
            \<and> getProp payload ''sub'' = Some (JStr sb) \<and> sb \<noteq> []
          \<longrightarrow> fst (verifyAgentIDToken env token options s) = Inr payload)"
proof -
  let ?conv = "toStr env (orUndefined (getProp payload ''auth_method''))"
  have named: "\<exists>m. fst (verifyAgentIDToken env token options s) = Inl (Error m)
                 \<and> stringIncludes m ''auth_method''"
    if bad: "getProp payload ''auth_method'' \<noteq> Some (JStr ''bankid'')" and conv: "?conv = Inr got"
  proof -
    let ?tail = "'': expected '' @ [CHR 0x22] @ ''bankid'' @ [CHR 0x22] @ '', got '' @ [CHR 0x22]
                   @ got @ [CHR 0x22]"
    have "fst (verifyAgentIDToken env token options s)
            = Inl (Error (''[agent-id] JWT has invalid '' @ ''auth_method'' @ ?tail))"
      using assms bad conv by (simp add: verifyAgentIDToken_def Let_def)
    moreover have "stringIncludes (''[agent-id] JWT has invalid '' @ ''auth_method'' @ ?tail)
                     ''auth_method''"
      by (rule stringIncludes_append)
    ultimately show ?thesis by blast
  qed
  have unnamed: "fst (verifyAgentIDToken env token options s) = Inl thrown"
    if bad: "getProp payload ''auth_method'' \<noteq> Some (JStr ''bankid'')" and conv: "?conv = Inl thrown"
    using assms bad conv by (simp add: verifyAgentIDToken_def Let_def)
  have fails: "\<exists>e. fst (verifyAgentIDToken env token options s) = Inl e"
    if bad: "getProp payload ''auth_method'' \<noteq> Some (JStr ''bankid'')"
    using assms bad by (cases ?conv) (simp_all add: verifyAgentIDToken_def Let_def)
  have returned: "fst (verifyAgentIDToken env token options s) = Inr payload"
    if "getProp payload ''auth_method'' = Some (JStr ''bankid'')
          \<and> getProp payload ''sub'' = Some (JStr sb) \<and> sb \<noteq> []"
    using assms that by (simp add: verifyAgentIDToken_def Let_def)
  from named unnamed fails returned show ?thesis
    by blast
qed

theorem verifyAgentIDToken_auth_method_witness:
  "getProp objectClaims ''auth_method'' = Some (JObj [(''toString'', JNull)])
   \<and> fst (verifyAgentIDToken stubEnv ''valid.object.token''
             \<lparr>jwksUrl = None, tokenClockTolerance = None\<rparr> freshState)
       = Inl (TypeError ''Cannot convert object to primitive value'')
   \<and> \<not> stringIncludes ''Cannot convert object to primitive value'' ''auth_method''
   \<and> (\<exists>m. fst (verifyAgentIDToken stubEnv ''valid.password.token''
                \<lparr>jwksUrl = None, tokenClockTolerance = None\<rparr> freshState) = Inl (Error m)
          \<and> stringIncludes m ''auth_method'')
   \<and> fst (verifyAgentIDToken stubEnv ''valid.bankid.token''
             \<lparr>jwksUrl = None, tokenClockTolerance = None\<rparr> freshState) = Inr exampleClaims"
proof -
  let ?options = "\<lparr>jwksUrl = None, tokenClockTolerance = None\<rparr>"
  let ?JWKS = "createRemoteJWKSet
                 \<lparr>href = ''https://agentidapp.vercel.app/api/jwks'', protocol = ''https:'',
                  hostname = ''agentidapp.vercel.app''\<rparr> (60 * 60 * 1000)"
  let ?s1 = "freshState\<lparr>jwksSets := (jwksSets freshState)(DEFAULT_JWKS_URL \<mapsto> ?JWKS)\<rparr>"
  have jw: "getJwks stubEnv (case jwksUrl ?options of None \<Rightarrow> DEFAULT_JWKS_URL | Some u \<Rightarrow> u)
              freshState = (Inr ?JWKS, ?s1)"
    by (simp add: getJwks_def Let_def freshState_def stubEnv_def exampleParseURL_def
        DEFAULT_JWKS_URL_def isLocal_def)
  have v0: "jwtVerify stubEnv ''valid.object.token'' ?JWKS
              \<lparr>issuer = ''agentid'', algorithms = [''RS256''],
               clockTolerance = (case tokenClockTolerance ?options of None \<Rightarrow> 30 | Some t \<Rightarrow> t)\<rparr>
              (world ?s1) = (Inr objectClaims, ())"
    by (simp add: stubEnv_def stubVerify_def)
  have v1: "jwtVerify stubEnv ''valid.password.token'' ?JWKS
              \<lparr>issuer = ''agentid'', algorithms = [''RS256''],
               clockTolerance = (case tokenClockTolerance ?options of None \<Rightarrow> 30 | Some t \<Rightarrow> t)\<rparr>
              (world ?s1) = (Inr passwordClaims, ())"
    by (simp add: stubEnv_def stubVerify_def)
  have v2: "jwtVerify stubEnv ''valid.bankid.token'' ?JWKS
              \<lparr>issuer = ''agentid'', algorithms = [''RS256''],
               clockTolerance = (case tokenClockTolerance ?options of None \<Rightarrow> 30 | Some t \<Rightarrow> t)\<rparr>
              (world ?s1) = (Inr exampleClaims, ())"
    by (simp add: stubEnv_def stubVerify_def)
  have p0: "getProp objectClaims ''auth_method'' = Some (JObj [(''toString'', JNull)])"
    by code_simp
  have n0: "getProp objectClaims ''auth_method'' \<noteq> Some (JStr ''bankid'')"
    by code_simp
  have c0: "toStr stubEnv (orUndefined (getProp objectClaims ''auth_method''))
              = Inl (TypeError ''Cannot convert object to primitive value'')"
    by code_simp
  have silent: "\<not> stringIncludes ''Cannot convert object to primitive value'' ''auth_method''"
    by code_simp
  have p1: "getProp passwordClaims ''auth_method'' \<noteq> Some (JStr ''bankid'')"
    by code_simp
  have c1: "toStr stubEnv (orUndefined (getProp passwordClaims ''auth_method'')) = Inr ''password''"
    by code_simp
  have p2: "getProp exampleClaims ''auth_method'' = Some (JStr ''bankid'')
            \<and> getProp exampleClaims ''sub'' = Some (JStr ''abc123pseudosub'')
            \<and> ''abc123pseudosub'' \<noteq> []"
    by code_simp
  from n0 c0 verifyAgentIDToken_auth_method [OF jw v0,
      where thrown = "TypeError ''Cannot convert object to primitive value''"]
  have 0: "fst (verifyAgentIDToken stubEnv ''valid.object.token'' ?options freshState)
             = Inl (TypeError ''Cannot convert object to primitive value'')"
    by blast
  from p1 c1 verifyAgentIDToken_auth_method [OF jw v1, where got = "''password''"]
  have 1: "\<exists>m. fst (verifyAgentIDToken stubEnv ''valid.password.token'' ?options freshState)
                 = Inl (Error m)
               \<and> stringIncludes m ''auth_method''"
    by blast
  from p2 verifyAgentIDToken_auth_method [OF jw v2, where sb = "''abc123pseudosub''"]
  have 2: "fst (verifyAgentIDToken stubEnv ''valid.bankid.token'' ?options freshState)
             = Inr exampleClaims"
    by blast
  from p0 0 silent 1 2 show ?thesis by blast
qed

section \<open>The proxy\<close>



text \<open>
  Claim C3. Take any two agent requests whose tokens both fail verification, for any
  reasons \<open>e1\<close> and \<open>e2\<close>, in any two environments and states. Each is answered by
  \<open>unauthorized\<close> with the one message \<open>Invalid or expired AgentID token.\<close>, which is
  also all the override callback is told. Without a callback the two outcomes are the
  same: in blocking mode the response with status 403 and the body
  \<open>{error: AGENT_UNAUTHORIZED, message: Invalid or expired AgentID token.}\<close>, in
  non-blocking mode the request forwarded with the marker \<open>x-agentid-verified: false\<close>.
  The failure kind reaches only the console.
\<close>

theorem invalid_tokens_indistinguishable:
  assumes "isAgentRequest (stripManaged (headers r1))"
    and "extractToken (stripManaged (headers r1)) = Some t1"
    and "fst (verifyAgentIDToken env1 t1 (verifierOptions options) s1) = Inl e1"
    and "isAgentRequest (stripManaged (headers r2))"
    and "extractToken (stripManaged (headers r2)) = Some t2"
    and "fst (verifyAgentIDToken env2 t2 (verifierOptions options) s2) = Inl e2"
  shows "fst (agentIDMiddleware env1 options r1 s1)
           = unauthorized r1 (stripManaged (headers r1)) ''Invalid or expired AgentID token.''
               (blocking options) (onUnauthorizedAgent options)
       \<and> fst (agentIDMiddleware env2 options r2 s2)
           = unauthorized r2 (stripManaged (headers r2)) ''Invalid or expired AgentID token.''
               (blocking options) (onUnauthorizedAgent options)
       \<and> (onUnauthorizedAgent options = None \<and> blocking options
          \<longrightarrow> fst (agentIDMiddleware env1 options r1 s1)
                = Inr (Json [(''error'', ''AGENT_UNAUTHORIZED''),
                             (''message'', ''Invalid or expired AgentID token.'')] 403)
              \<and> fst (agentIDMiddleware env2 options r2 s2)
                = fst (agentIDMiddleware env1 options r1 s1))
       \<and> (onUnauthorizedAgent options = None \<and> \<not> blocking options
          \<longrightarrow> fst (agentIDMiddleware env1 options r1 s1)
                = Inr (Next ((stripManaged (headers r1))(''x-agentid-verified'' \<mapsto> ''false'')))
              \<and> fst (agentIDMiddleware env2 options r2 s2)
                = Inr (Next ((stripManaged (headers r2))(''x-agentid-verified'' \<mapsto> ''false''))))"
proof -
  have 1: "fst (agentIDMiddleware env1 options r1 s1)
             = unauthorized r1 (stripManaged (headers r1)) ''Invalid or expired AgentID token.''
                 (blocking options) (onUnauthorizedAgent options)"
    using agentIDMiddleware_invalid [OF assms(1,2,3)] by simp
  have 2: "fst (agentIDMiddleware env2 options r2 s2)
             = unauthorized r2 (stripManaged (headers r2)) ''Invalid or expired AgentID token.''
                 (blocking options) (onUnauthorizedAgent options)"
    using agentIDMiddleware_invalid [OF assms(4,5,6)] by simp
  have block: "unauthorized r hs msg True None
                 = Inr (Json [(''error'', ''AGENT_UNAUTHORIZED''), (''message'', msg)] 403)"
    for r :: nextRequest and hs msg
    by (simp add: unauthorized_def)
  have pass: "unauthorized r hs msg False None = Inr (Next (hs(''x-agentid-verified'' \<mapsto> ''false'')))"
    for r :: nextRequest and hs msg
    by (simp add: unauthorized_def headers_set_false)
  show ?thesis
    by (simp add: 1 2 block pass)
qed

theorem invalid_tokens_indistinguishable_witness:
  "fst (verifyAgentIDToken stubEnv ''expired.token'' (verifierOptions defaults) freshState)
     = Inl (JOSEError TokenExpired ''exp check failed'')
   \<and> fst (verifyAgentIDToken stubEnv ''not.a.jwt'' (verifierOptions defaults) freshState)
     = Inl (JOSEError MalformedToken ''Invalid Compact JWS'')
   \<and> fst (agentIDMiddleware stubEnv defaults expiredTokenRequest freshState)
     = Inr (Json [(''error'', ''AGENT_UNAUTHORIZED''),
                  (''message'', ''Invalid or expired AgentID token.'')] 403)
   \<and> fst (agentIDMiddleware stubEnv defaults malformedTokenRequest freshState)
     = fst (agentIDMiddleware stubEnv defaults expiredTokenRequest freshState)"
proof -
  have a1: "isAgentRequest (stripManaged (headers expiredTokenRequest))"
    by code_simp
  have a2: "extractToken (stripManaged (headers expiredTokenRequest)) = Some ''expired.token''"
    by code_simp
  have a3: "fst (verifyAgentIDToken stubEnv ''expired.token'' (verifierOptions defaults) freshState)
              = Inl (JOSEError TokenExpired ''exp check failed'')"
    by code_simp
  have b1: "isAgentRequest (stripManaged (headers malformedTokenRequest))"
    by code_simp
  have b2: "extractToken (stripManaged (headers malformedTokenRequest)) = Some ''not.a.jwt''"
    by code_simp
  have b3: "fst (verifyAgentIDToken stubEnv ''not.a.jwt'' (verifierOptions defaults) freshState)
              = Inl (JOSEError MalformedToken ''Invalid Compact JWS'')"
    by code_simp
  have mode: "onUnauthorizedAgent defaults = None \<and> blocking defaults"
    by code_simp
  from invalid_tokens_indistinguishable [OF a1 a2 a3 b1 b2 b3] mode
  have "fst (agentIDMiddleware stubEnv defaults expiredTokenRequest freshState)
          = Inr (Json [(''error'', ''AGENT_UNAUTHORIZED''),
                       (''message'', ''Invalid or expired AgentID token.'')] 403)
        \<and> fst (agentIDMiddleware stubEnv defaults malformedTokenRequest freshState)
          = fst (agentIDMiddleware stubEnv defaults expiredTokenRequest freshState)"
    by blast
  with a3 b3 show ?thesis by blast
qed

text \<open>
  Claim C4, as the code has it. In non-blocking mode without an override callback, an
  agent request whose token fails verification is forwarded with
  \<open>x-agentid-verified: false\<close>, exactly as an agent request without a token is, and
  \<open>getAgentIDResult\<close> reads that marker as the reason \<open>no_token\<close> in both cases: the
  reason \<open>invalid_token\<close>, which the claim expects for the failed token, is not what the
  route handler gets.
\<close>

theorem unverified_reason_downstream:
  assumes "isAgentRequest (stripManaged (headers req))"
    and "blockUnauthorizedAgents options = Some False"
    and "onUnauthorizedAgent options = None"
  shows "(extractToken (stripManaged (headers req)) = Some token
            \<and> fst (verifyAgentIDToken env token (verifierOptions options) s) = Inl err
          \<longrightarrow> downstream env options req s = Some (Inr (Unverified no_token)))
       \<and> (extractToken (stripManaged (headers req)) = None
          \<longrightarrow> downstream env options req s = Some (Inr (Unverified no_token)))"
proof -
  have mode: "blocking options = False"
    using assms(2) by (simp add: blocking_def)
  have pass: "unauthorized req (stripManaged (headers req)) msg False None
                = Inr (Next ((stripManaged (headers req))(''x-agentid-verified'' \<mapsto> ''false'')))"
    for msg
    by (simp add: unauthorized_def headers_set_false)
  have read: "getAgentIDResult env (forwarded req (hs(''x-agentid-verified'' \<mapsto> ''false'')))
                = Inr (Unverified no_token)"
    for hs
    by (simp add: getAgentIDResult_def forwarded_def headers_get_def)
  have invalid: "downstream env options req s = Some (Inr (Unverified no_token))"
    if "extractToken (stripManaged (headers req)) = Some token
          \<and> fst (verifyAgentIDToken env token (verifierOptions options) s) = Inl err"
  proof -
    from that have tok: "extractToken (stripManaged (headers req)) = Some token"
      and bad: "fst (verifyAgentIDToken env token (verifierOptions options) s) = Inl err"
      by simp_all
    show ?thesis
      by (simp add: downstream_def agentIDMiddleware_invalid [OF assms(1) tok bad] mode
          assms(3) pass read)
  qed
  have missing: "downstream env options req s = Some (Inr (Unverified no_token))"
    if "extractToken (stripManaged (headers req)) = None"
    by (simp add: downstream_def agentIDMiddleware_no_token [OF assms(1) that] mode
        assms(3) pass read)
  from invalid missing show ?thesis
    by blast
qed

theorem unverified_reason_downstream_witness:
  "fst (verifyAgentIDToken stubEnv ''expired.token'' (verifierOptions nonBlocking) freshState)
     = Inl (JOSEError TokenExpired ''exp check failed'')
   \<and> downstream stubEnv nonBlocking expiredTokenRequest freshState
     = Some (Inr (Unverified no_token))
   \<and> downstream stubEnv nonBlocking noTokenRequest freshState
     = Some (Inr (Unverified no_token))"
proof -
  have a1: "isAgentRequest (stripManaged (headers expiredTokenRequest))"
    by code_simp
  have a2: "extractToken (stripManaged (headers expiredTokenRequest)) = Some ''expired.token''"
    by code_simp
  have a3: "fst (verifyAgentIDToken stubEnv ''expired.token'' (verifierOptions nonBlocking)
                   freshState) = Inl (JOSEError TokenExpired ''exp check failed'')"
    by code_simp
  have b1: "isAgentRequest (stripManaged (headers noTokenRequest))"
    by code_simp
  have b2: "extractToken (stripManaged (headers noTokenRequest)) = None"
    by code_simp
  have m1: "blockUnauthorizedAgents nonBlocking = Some False"
    by code_simp
  have m2: "onUnauthorizedAgent nonBlocking = None"
    by (simp add: nonBlocking_def)
  from unverified_reason_downstream [OF a1 m1 m2, where token = "''expired.token''"
      and env = stubEnv and s = freshState
      and err = "JOSEError TokenExpired ''exp check failed''"] a2 a3
  have 1: "downstream stubEnv nonBlocking expiredTokenRequest freshState
             = Some (Inr (Unverified no_token))"
    by blast
  from unverified_reason_downstream [OF b1 m1 m2, where env = stubEnv and s = freshState] b2
  have 2: "downstream stubEnv nonBlocking noTokenRequest freshState
             = Some (Inr (Unverified no_token))"
    by blast
  from a3 1 2 show ?thesis by blast
qed

section \<open>The verifier on the specification's token library\<close>

text \<open>
  Claim C1. With \<open>jwtVerify\<close> as the specification describes it: for every token
  whose protected header does not declare the algorithm \<open>RS256\<close> (it declares
  \<open>none\<close>, \<open>HS256\<close> or anything else, or no algorithm at all), whatever its claims
  and its signature segment are, \<open>verifyAgentIDToken\<close> fails, and it leaves the world as
  it was: no key has been looked up and no signature verification has been attempted.
  When the key set was obtained, the failure is the rejection of the algorithm.
\<close>

theorem verifyAgentIDToken_algorithm_allowlist:
  assumes "jwtVerify env = jwtVerifySpec lib"
    and "decodeToken lib token = Some t"
    and "map_of (protectedHeader t) ''alg'' \<noteq> Some (JStr ''RS256'')"
  shows "(\<exists>e. fst (verifyAgentIDToken env token options s) = Inl e)
       \<and> world (snd (verifyAgentIDToken env token options s)) = world s
       \<and> SignatureVerification
            \<notin> set (effects (world (snd (verifyAgentIDToken env token options s))))
                - set (effects (world s))
       \<and> ((\<exists>handle s1. getJwks env (case jwksUrl options of None \<Rightarrow> DEFAULT_JWKS_URL
                                      | Some u \<Rightarrow> u) s = (Inr handle, s1))
          \<longrightarrow> fst (verifyAgentIDToken env token options s)
                = Inl (failure lib AlgorithmRejected))"
proof -
  let ?raw = "case jwksUrl options of None \<Rightarrow> DEFAULT_JWKS_URL | Some u \<Rightarrow> u"
  have rejected: "jwtVerifySpec lib token JWKS
                    \<lparr>issuer = ''agentid'', algorithms = [''RS256''], clockTolerance = d\<rparr> w
                  = (Inl (failure lib AlgorithmRejected), w)"
    for JWKS d w
    using assms(2,3)
    by (auto simp add: jwtVerifySpec_def split: option.splits json.splits)
  obtain r s1 where g: "getJwks env ?raw s = (r, s1)"
    by (cases "getJwks env ?raw s")
  have w1: "world s1 = world s"
    using getJwks_world [of env ?raw s] g by simp
  show ?thesis
  proof (cases r)
    case (Inl e)
    with g w1 show ?thesis
      by (simp add: verifyAgentIDToken_def)
  next
    case (Inr JWKS)
    with g w1 rejected show ?thesis
      by (simp add: verifyAgentIDToken_def assms(1))
  qed
qed

theorem verifyAgentIDToken_algorithm_allowlist_witness:
  "fst (verifyAgentIDToken specEnv ''none.token.''
          \<lparr>jwksUrl = None, tokenClockTolerance = None\<rparr> (specState 500))
     = Inl (failure exampleLib AlgorithmRejected)
   \<and> fst (verifyAgentIDToken specEnv ''hs256.token''
          \<lparr>jwksUrl = None, tokenClockTolerance = None\<rparr> (specState 500))
     = Inl (failure exampleLib AlgorithmRejected)
   \<and> world (snd (verifyAgentIDToken specEnv ''none.token.''
          \<lparr>jwksUrl = None, tokenClockTolerance = None\<rparr> (specState 500)))
     = world (specState 500)
   \<and> getProp (claimsSet (exampleToken ''none'')) ''auth_method'' = Some (JStr ''bankid'')"
proof -
  let ?options = "\<lparr>jwksUrl = None, tokenClockTolerance = None\<rparr>"
  have lib: "jwtVerify specEnv = jwtVerifySpec exampleLib"
    by (simp add: specEnv_def)
  have d1: "decodeToken exampleLib ''none.token.'' = Some (exampleToken ''none'')"
    by code_simp
  have d2: "decodeToken exampleLib ''hs256.token'' = Some (exampleToken ''HS256'')"
    by code_simp
  have a1: "map_of (protectedHeader (exampleToken ''none'')) ''alg'' \<noteq> Some (JStr ''RS256'')"
    by code_simp
  have a2: "map_of (protectedHeader (exampleToken ''HS256'')) ''alg'' \<noteq> Some (JStr ''RS256'')"
    by code_simp
  have wellformed: "getProp (claimsSet (exampleToken ''none'')) ''auth_method''
                      = Some (JStr ''bankid'')"
    by code_simp
  have got: "\<exists>handle s1.
      getJwks specEnv (case jwksUrl ?options of None \<Rightarrow> DEFAULT_JWKS_URL | Some u \<Rightarrow> u)
        (specState 500) = (Inr handle, s1)"
    by (simp add: getJwks_def Let_def specState_def specEnv_def exampleParseURL_def
        DEFAULT_JWKS_URL_def isLocal_def)
  from verifyAgentIDToken_algorithm_allowlist [OF lib d1 a1, of ?options "specState 500"] got
  have 1: "fst (verifyAgentIDToken specEnv ''none.token.'' ?options (specState 500))
             = Inl (failure exampleLib AlgorithmRejected)
           \<and> world (snd (verifyAgentIDToken specEnv ''none.token.'' ?options (specState 500)))
             = world (specState 500)"
    by blast
  from verifyAgentIDToken_algorithm_allowlist [OF lib d2 a2, of ?options "specState 500"] got
  have 2: "fst (verifyAgentIDToken specEnv ''hs256.token'' ?options (specState 500))
             = Inl (failure exampleLib AlgorithmRejected)"
    by blast
  from 1 2 wellformed show ?thesis by blast
qed

text \<open>
  Claim C5. With \<open>jwtVerify\<close> as the specification describes it: for every token that
  passes all other checks (the key set is obtained, the token decodes, declares
  \<open>RS256\<close>, its key resolves, its signature verifies, its issuer is \<open>agentid\<close>, its
  \<open>auth_method\<close> is \<open>bankid\<close> and its \<open>sub\<close> is a non-empty string) and whose \<open>exp\<close> is
  the number \<open>e\<close>, \<open>verifyAgentIDToken\<close> returns the claims if and only if \<open>e\<close> is at
  least the current time minus the clock tolerance, and fails as expired otherwise. The
  tolerance is the option \<open>clockTolerance\<close>, 30 when the option is absent, and 0 when it
  is 0: then every \<open>exp\<close> in the past fails.
\<close>

theorem verifyAgentIDToken_expiry:
  assumes "jwtVerify env = jwtVerifySpec lib"
    and "getJwks env (case jwksUrl options of None \<Rightarrow> DEFAULT_JWKS_URL | Some u \<Rightarrow> u) s
           = (Inr JWKS, s1)"
    and "decodeToken lib token = Some t"
    and "map_of (protectedHeader t) ''alg'' = Some (JStr ''RS256'')"
    and "resolveKey lib JWKS (protectedHeader t) = Inr key"
    and "verifySignature lib key token"
    and "getProp (claimsSet t) ''iss'' = Some (JStr ''agentid'')"
    and "getProp (claimsSet t) ''auth_method'' = Some (JStr ''bankid'')"
    and "getProp (claimsSet t) ''sub'' = Some (JStr sb)"
    and "sb \<noteq> []"
    and "getProp (claimsSet t) ''exp'' = Some (JNum e)"
  shows "((\<exists>claims. fst (verifyAgentIDToken env token options s) = Inr claims)
            = (now (world s) - (case tokenClockTolerance options of None \<Rightarrow> 30 | Some d \<Rightarrow> d)
                 \<le> e))
       \<and> fst (verifyAgentIDToken env token options s)
           = (if now (world s) - (case tokenClockTolerance options of None \<Rightarrow> 30 | Some d \<Rightarrow> d)
                   \<le> e
              then Inr (claimsSet t) else Inl (failure lib TokenExpired))
       \<and> (tokenClockTolerance options = Some 0 \<and> e < now (world s)
          \<longrightarrow> fst (verifyAgentIDToken env token options s) = Inl (failure lib TokenExpired))"
proof -
  let ?d = "case tokenClockTolerance options of None \<Rightarrow> 30 | Some d \<Rightarrow> d"
  have w1: "world s1 = world s"
    using getJwks_world [of env "case jwksUrl options of None \<Rightarrow> DEFAULT_JWKS_URL | Some u \<Rightarrow> u" s]
      assms(2)
    by simp
  have lib: "jwtVerifySpec lib token JWKS
               \<lparr>issuer = ''agentid'', algorithms = [''RS256''], clockTolerance = ?d\<rparr> (world s)
             = (if now (world s) - ?d \<le> e then Inr (claimsSet t)
                else Inl (failure lib TokenExpired),
                (world s)\<lparr>effects := effects (world s) @ [KeyResolution, SignatureVerification]\<rparr>)"
    using assms(3-7,11) by (simp add: jwtVerifySpec_def Let_def)
  have result: "fst (verifyAgentIDToken env token options s)
                  = (if now (world s) - ?d \<le> e then Inr (claimsSet t)
                     else Inl (failure lib TokenExpired))"
    using assms(8,9,10)
    by (simp add: verifyAgentIDToken_def assms(1,2) w1 lib)
  show ?thesis
    by (auto simp add: result)
qed

theorem verifyAgentIDToken_expiry_witness:
  "fst (verifyAgentIDToken specEnv ''rs256.token''
          \<lparr>jwksUrl = None, tokenClockTolerance = None\<rparr> (specState 1030)) = Inr exampleClaims
   \<and> fst (verifyAgentIDToken specEnv ''rs256.token''
          \<lparr>jwksUrl = None, tokenClockTolerance = None\<rparr> (specState 1031))
       = Inl (failure exampleLib TokenExpired)
   \<and> fst (verifyAgentIDToken specEnv ''rs256.token''
          \<lparr>jwksUrl = None, tokenClockTolerance = Some 0\<rparr> (specState 1001))
       = Inl (failure exampleLib TokenExpired)"
proof -
  let ?JWKS = "createRemoteJWKSet
                 \<lparr>href = ''https://agentidapp.vercel.app/api/jwks'', protocol = ''https:'',
                  hostname = ''agentidapp.vercel.app''\<rparr> (60 * 60 * 1000)"
  have lib: "jwtVerify specEnv = jwtVerifySpec exampleLib"
    by (simp add: specEnv_def)
  have got: "getJwks specEnv (case jwksUrl \<lparr>jwksUrl = None, tokenClockTolerance = d\<rparr> of
                                None \<Rightarrow> DEFAULT_JWKS_URL | Some u \<Rightarrow> u) (specState n)
               = (Inr ?JWKS,
                  (specState n)\<lparr>jwksSets := (jwksSets (specState n))(DEFAULT_JWKS_URL \<mapsto> ?JWKS)\<rparr>)"
    for d n
    by (simp add: getJwks_def Let_def specState_def specEnv_def exampleParseURL_def
        DEFAULT_JWKS_URL_def isLocal_def)
  have dec: "decodeToken exampleLib ''rs256.token'' = Some (exampleToken ''RS256'')"
    by code_simp
  have alg: "map_of (protectedHeader (exampleToken ''RS256'')) ''alg'' = Some (JStr ''RS256'')"
    by code_simp
  have key: "resolveKey exampleLib ?JWKS (protectedHeader (exampleToken ''RS256'')) = Inr ()"
    by (simp add: exampleLib_def)
  have sig: "verifySignature exampleLib () ''rs256.token''"
    by code_simp
  have iss: "getProp (claimsSet (exampleToken ''RS256'')) ''iss'' = Some (JStr ''agentid'')"
    by code_simp
  have am: "getProp (claimsSet (exampleToken ''RS256'')) ''auth_method'' = Some (JStr ''bankid'')"
    by code_simp
  have sub: "getProp (claimsSet (exampleToken ''RS256'')) ''sub'' = Some (JStr ''abc123pseudosub'')"
    by code_simp
  have ne: "''abc123pseudosub'' \<noteq> []"
    by simp
  have exp: "getProp (claimsSet (exampleToken ''RS256'')) ''exp'' = Some (JNum 1000)"
    by code_simp
  have cl: "claimsSet (exampleToken ''RS256'') = exampleClaims"
    by (simp add: exampleToken_def)
  note inst = verifyAgentIDToken_expiry [OF lib got dec alg key sig iss am sub ne exp]
  have 1: "fst (verifyAgentIDToken specEnv ''rs256.token''
                  \<lparr>jwksUrl = None, tokenClockTolerance = None\<rparr> (specState 1030))
             = Inr exampleClaims"
    using inst [of None 1030] by (simp add: cl specState_def)
  have 2: "fst (verifyAgentIDToken specEnv ''rs256.token''
                  \<lparr>jwksUrl = None, tokenClockTolerance = None\<rparr> (specState 1031))
             = Inl (failure exampleLib TokenExpired)"
    using inst [of None 1031] by (simp add: cl specState_def)
  have 3: "fst (verifyAgentIDToken specEnv ''rs256.token''
                  \<lparr>jwksUrl = None, tokenClockTolerance = Some 0\<rparr> (specState 1001))
             = Inl (failure exampleLib TokenExpired)"
    using inst [of "Some 0" 1001] by (simp add: cl specState_def)
  from 1 2 3 show ?thesis by blast
qed

end
